theory Spec2Isabelle
  imports Main
begin

section \<open>Data model\<close>

text \<open>
  Text is a list of code units; every code unit the development looks at is below 256.
  The characters that cannot be written inside a literal get a name.
\<close>

abbreviation squote :: char where "squote \<equiv> CHR 0x27"
abbreviation dquote :: char where "dquote \<equiv> CHR 0x22"
abbreviation newline :: char where "newline \<equiv> CHR 0x0A"
abbreviation creturn :: char where "creturn \<equiv> CHR 0x0D"

text \<open>
  A parameter value as \<open>convertParamsArray\<close> tells values apart: an array
  (\<open>Array.isArray\<close>), a string (\<open>typeof == "string"\<close>), \<open>undefined\<close> or
  \<open>null\<close> (both \<open>== undefined\<close>), and everything else (numbers, booleans), which
  the code only ever reads through template interpolation: \<open>JOther t\<close> is such a value
  whose interpolation \<open>`${v}`\<close> is the text \<open>t\<close>.
\<close>

datatype jsval =
    JArray "jsval list"
  | JString string
  | JUndefined
  | JNull
  | JOther string

text \<open>
  The \<open>params\<close> argument of the call operations: an array of values, or an object,
  given by its \<open>Object.entries\<close> in enumeration order.
\<close>

datatype params =
    Positional "jsval list"
  | Named "(string \<times> jsval) list"

section \<open>Call synthesizer\<close>

text \<open>
  \<open>convertParamsArray\<close> (r.js 212-233). The loop appends the conversion of every
  element to \<open>"c("\<close>; \<open>slice(0, -1)\<close> then drops the last character of what has been
  accumulated, whatever it is.
\<close>

fun convertParamsArray :: "jsval \<Rightarrow> string" where
  "convertParamsArray (JArray xs) =
     butlast (''c('' @ concat (map convertParamsArray xs)) @ ''),''"
| "convertParamsArray (JString s) = [squote] @ s @ [squote] @ '',''"
| "convertParamsArray JUndefined = ''NA,''"
| "convertParamsArray JNull = ''NA,''"
| "convertParamsArray (JOther t) = t @ '',''"

text \<open>
  One iteration of the loop over \<open>Object.entries(params)\<close> (r.js 258-268, and the same
  lines in \<open>callMethodAsync\<close> and \<open>callStandardMethod\<close>).
\<close>

fun namedEntry :: "string \<times> jsval \<Rightarrow> string" where
  "namedEntry (k, JArray xs) = k @ ''='' @ convertParamsArray (JArray xs)"
| "namedEntry (k, JString s) = k @ ''='' @ [squote] @ s @ [squote] @ '',''"
| "namedEntry (k, JUndefined) = k @ ''=NA,''"
| "namedEntry (k, JNull) = k @ ''=NA,''"
| "namedEntry (k, JOther t) = k @ ''='' @ t @ '',''"

text \<open>
  The text accumulated in the variable \<open>methodSyntax\<close> before the trailing character is
  dropped (r.js 252-269), and the finished call expression (r.js 271-272).
\<close>

definition methodSyntaxOpen :: "string \<Rightarrow> params \<Rightarrow> string" where
  "methodSyntaxOpen methodName ps =
     methodName @ ''('' @
       (case ps of
          Positional xs \<Rightarrow> convertParamsArray (JArray xs)
        | Named kvs \<Rightarrow> concat (map namedEntry kvs))"

definition methodSyntax :: "string \<Rightarrow> params \<Rightarrow> string" where
  "methodSyntax methodName ps = butlast (methodSyntaxOpen methodName ps) @ '')''"

section \<open>The host: platform, file system, subprocesses, JSON decoder\<close>

text \<open>
  What \<open>child_process.exec\<close> and \<open>execSync\<close> raise when the command fails (non-zero
  exit status, signal, spawn failure): an error object with a message. The two
  functions build their error objects separately, so a failure comes with two of them:
  the one \<open>execSync\<close> throws and the one \<open>exec\<close> passes to its callback. Nothing
  relates their messages.
\<close>

datatype exec_error = ExecError (message: string)

record exec_failure =
  thrown :: exec_error
  passed :: exec_error

text \<open>
  What running one command line does: whether it fails, with the errors the runtime
  raises for it, and the text the subprocess wrote to its two streams. A subprocess can
  write to stdout and still fail.
\<close>

record proc_outcome =
  exit_error :: "exec_failure option"
  written_stdout :: string
  written_stderr :: string

text \<open>
  The functions of the runtime the code calls, as parameters: \<open>process.platform\<close>,
  \<open>fs.existsSync\<close>, \<open>fs.readdirSync\<close> (which returns the entries or raises),
  \<open>path.join\<close>, the outcome of running a command line, and \<open>JSON.parse\<close> (\<open>None\<close>
  when it raises a syntax error).
\<close>

record 'j env =
  platform :: string
  existsSync :: "string \<Rightarrow> bool"
  readdirSync :: "string \<Rightarrow> string + string list"
  pt_join :: "string list \<Rightarrow> string"
  subprocess :: "string \<Rightarrow> proc_outcome"
  JSON_parse :: "string \<Rightarrow> 'j option"

section \<open>Errors\<close>

text \<open>
  The value of the \<open>stderr\<close> field of an executor's result, which is also what
  \<open>RScriptError\<close> is constructed with: \<open>undefined\<close>, the error object caught from
  \<open>execSync\<close>, or a text.
\<close>

datatype diag = DUndefined | DError exec_error | DText string

text \<open>
  Everything the operations throw: a plain \<open>Error\<close> with its message, the two error
  classes of the package with their constructor argument, and an error raised by the
  file system.
\<close>

datatype error =
    Error string
  | REngineNotFoundError "string option"
  | RScriptError diag
  | SystemError string

text \<open>
  The message \<open>REngineNotFoundError\<close> builds from its argument by interpolation
  (r-engine-not-found-error.js 10-12); \<open>undefined\<close> interpolates as its name.
\<close>

definition engineNotFoundMessage :: "string option \<Rightarrow> string" where
  "engineNotFoundMessage path =
     ''R Engine not found. See www.r-project.org. (path: '' @
       (case path of None \<Rightarrow> ''undefined'' | Some p \<Rightarrow> p) @ '')''"

section \<open>Platform classifier\<close>

definition getCurrentOs :: "string \<Rightarrow> string" where
  "getCurrentOs processPlatform =
     (if processPlatform = ''win32'' then ''win''
      else if processPlatform = ''linux'' \<or> processPlatform = ''openbsd''
                \<or> processPlatform = ''freebsd'' then ''lin''
      else ''mac'')"

section \<open>Process executor\<close>

record shell_result =
  stdout :: "string option"
  stderr :: diag

text \<open>\<open>executeShellCommand\<close> (r.js 38-54): \<open>stdout\<close> and \<open>stderr\<close> start undefined.\<close>

definition executeShellCommand :: "'j env \<Rightarrow> string \<Rightarrow> shell_result" where
  "executeShellCommand env command =
     (case exit_error (subprocess env command) of
        None \<Rightarrow>
          \<lparr>stdout = Some (written_stdout (subprocess env command)), stderr = DUndefined\<rparr>
      | Some e \<Rightarrow> \<lparr>stdout = None, stderr = DError (thrown e)\<rparr>)"

text \<open>\<open>execShellCommandAsync\<close> (r.js 62-71): the value the promise resolves with.\<close>

definition execShellCommandAsync :: "'j env \<Rightarrow> string \<Rightarrow> shell_result" where
  "execShellCommandAsync env command =
     \<lparr>stdout = Some (written_stdout (subprocess env command)),
      stderr =
        (case exit_error (subprocess env command) of
           Some err \<Rightarrow> DText (message (passed err))
         | None \<Rightarrow> DText (written_stderr (subprocess env command)))\<rparr>"

section \<open>Engine locator\<close>

abbreviation backslash :: char where "backslash \<equiv> CHR 0x5C"

definition defaultWindowsRoot :: string where
  "defaultWindowsRoot = ''C:'' @ [backslash] @ ''Program Files'' @ [backslash] @ ''R''"

text \<open>
  The end of \<open>getRscriptPath\<close> (r.js 121-124): \<open>installationDir\<close> is \<open>0\<close> (here
  \<open>None\<close>) unless a branch assigned it; \<open>0\<close> and the empty string are falsy.
\<close>

definition locateFinish :: "string option \<Rightarrow> string option \<Rightarrow> error + string" where
  "locateFinish path installationDir =
     (case installationDir of
        None \<Rightarrow> Inl (REngineNotFoundError path)
      | Some d \<Rightarrow> if d = [] then Inl (REngineNotFoundError path) else Inr d)"

text \<open>
  \<open>getRscriptPath\<close> (r.js 80-125). The argument is \<open>undefined\<close> (\<open>None\<close>) or a string;
  \<open>!path\<close> holds for \<open>undefined\<close> and for the empty string. The variable \<open>path\<close> is
  reassigned before it reaches the error.
\<close>

definition locateByWhich :: "'j env \<Rightarrow> error + string" where
  "locateByWhich env =
     (case stdout (executeShellCommand env ''which Rscript'') of
        None \<Rightarrow> locateFinish None None
      | Some p \<Rightarrow>
          if p \<noteq> [] then locateFinish (Some p) (Some (remove1 newline p))
          else locateFinish (Some p) None)"

definition locateByOverride :: "'j env \<Rightarrow> string \<Rightarrow> error + string" where
  "locateByOverride env path =
     (let path1 = pt_join env [path, ''Rscript'']
      in if existsSync env path1 then locateFinish (Some path1) (Some path1)
         else locateFinish (Some path1) None)"

definition getRscriptPath :: "'j env \<Rightarrow> string option \<Rightarrow> error + string" where
  "getRscriptPath env path =
     (let os = getCurrentOs (platform env) in
      if os = ''win'' then
        (let path1 = (case path of
                        None \<Rightarrow> pt_join env [defaultWindowsRoot]
                      | Some p \<Rightarrow> if p = [] then pt_join env [defaultWindowsRoot] else p)
         in if existsSync env path1 then
              (case readdirSync env path1 of
                 Inl m \<Rightarrow> Inl (SystemError m)
               | Inr dirContent \<Rightarrow>
                   if dirContent \<noteq> [] then
                     locateFinish (Some path1)
                       (Some (pt_join env [path1, last dirContent, ''bin'', ''Rscript.exe'']))
                   else locateFinish (Some path1) None)
            else locateFinish (Some path1) None)
      else if os = ''mac'' \<or> os = ''lin'' then
        (case path of
           None \<Rightarrow> locateByWhich env
         | Some p \<Rightarrow> if p = [] then locateByWhich env else locateByOverride env p)
      else Inl (Error ''Cannot determine OS type''))"

section \<open>Output parser\<close>

text \<open>
  The classes of the regular expressions: \<open>\s\<close> on code units below 256 (tab, line
  feed, vertical tab, form feed, carriage return, space, no-break space) and \<open>\d\<close>.
\<close>

definition is_space :: "char \<Rightarrow> bool" where
  "is_space c =
     (c \<in> set [CHR 0x09, CHR 0x0A, CHR 0x0B, CHR 0x0C, CHR 0x0D, CHR 0x20, CHR 0xA0])"

definition is_digit :: "char \<Rightarrow> bool" where
  "is_digit c = (c \<in> set ''0123456789'')"

text \<open>
  \<open>replace(/\[\d+\] /g, "")\<close> (r.js 380): scanning from the left, every match of
  \<open>[\<close>, one or more digits, \<open>]\<close>, space is removed.
\<close>

function stripIndex :: "string \<Rightarrow> string" where
  "stripIndex [] = []"
| "stripIndex (c # cs) =
     (if c = CHR ''['' \<and> takeWhile is_digit cs \<noteq> []
          \<and> take 2 (dropWhile is_digit cs) = ''] ''
      then stripIndex (drop 2 (dropWhile is_digit cs))
      else c # stripIndex cs)"
  by pat_completeness auto
termination
  by (relation "measure length")
     (auto simp: less_Suc_eq_le intro: le_trans [OF diff_le_self length_dropWhile_le])

text \<open>
  \<open>replace(/\t*\s*\n*$/g, "")\<close> and \<open>replace(/\t*\s*[\r\n]*$/g, "")\<close> (r.js 383,
  388): the first match starts where the trailing run of white space starts and goes to
  the end of the text.
\<close>

definition stripTrailing :: "string \<Rightarrow> string" where
  "stripTrailing s = rev (dropWhile is_space (rev s))"

text \<open>
  \<open>replace(/[\s\t]+/g, sep)\<close> (r.js 384, 389): every maximal run of white space
  becomes \<open>sep\<close>.
\<close>

function collapseSpace :: "string \<Rightarrow> string \<Rightarrow> string" where
  "collapseSpace sep [] = []"
| "collapseSpace sep (c # cs) =
     (if is_space c then sep @ collapseSpace sep (dropWhile is_space cs)
      else c # collapseSpace sep cs)"
  by pat_completeness auto
termination
  by (relation "measure (\<lambda>(sep, s). length s)")
     (auto simp: less_Suc_eq_le length_dropWhile_le)

text \<open>Putting a character in front of the first piece of a split.\<close>

fun consHead :: "char \<Rightarrow> string list \<Rightarrow> string list" where
  "consHead c [] = [[c]]"
| "consHead c (t # ts) = (c # t) # ts"

text \<open>
  \<open>split(/[\n]+/)\<close> and \<open>split(/[\r\n]+/)\<close> (r.js 398, 400): the text is cut at every
  maximal run of characters of the class \<open>P\<close>; the empty text gives one empty piece.
\<close>

function splitRuns :: "(char \<Rightarrow> bool) \<Rightarrow> string \<Rightarrow> string list" where
  "splitRuns P [] = [[]]"
| "splitRuns P (c # cs) =
     (if P c then [] # splitRuns P (dropWhile P cs)
      else consHead c (splitRuns P cs))"
  by pat_completeness auto
termination
  by (relation "measure (\<lambda>(P, s). length s)")
     (auto simp: less_Suc_eq_le length_dropWhile_le)

text \<open>
  An element of the parser's result: the value \<open>JSON.parse\<close> decoded, \<open>undefined\<close>,
  \<open>NaN\<close>, or a string.
\<close>

datatype 'j parsed = PJson 'j | PUndefined | PNaN | PString string

text \<open>The body of the loop over the pieces (r.js 404-413).\<close>

definition convertToken :: "string \<Rightarrow> 'j parsed" where
  "convertToken t =
     (if t = ''NA'' then PUndefined
      else if t = ''NaN'' then PNaN
      else PString (filter (\<lambda>c. c \<noteq> dquote) t))"

text \<open>The text \<open>commandResult\<close> holds when it reaches \<open>JSON.parse\<close> (r.js 380-390).\<close>

definition normalizeOutput :: "string \<Rightarrow> string \<Rightarrow> string" where
  "normalizeOutput currentOS commandResult =
     (if currentOS = ''win''
      then collapseSpace [creturn, newline] (stripTrailing (stripIndex commandResult))
      else collapseSpace [newline] (stripTrailing (stripIndex commandResult)))"

text \<open>\<open>filterMultiline\<close> (r.js 373-419).\<close>

definition filterMultiline :: "'j env \<Rightarrow> string \<Rightarrow> 'j parsed list" where
  "filterMultiline env commandResult =
     (let currentOS = getCurrentOs (platform env);
          normalized = normalizeOutput currentOS commandResult
      in case JSON_parse env normalized of
           Some v \<Rightarrow> [PJson v]
         | None \<Rightarrow>
             map convertToken
               (if currentOS = ''win''
                then splitRuns (\<lambda>c. c = creturn \<or> c = newline) normalized
                else splitRuns (\<lambda>c. c = newline) normalized))"

section \<open>Invocation facade\<close>

text \<open>The command lines (r.js 138, 162, 195).\<close>

definition expressionCommand :: "string \<Rightarrow> string \<Rightarrow> string" where
  "expressionCommand RscriptBinaryPath command =
     [dquote] @ RscriptBinaryPath @ [dquote] @ '' -e '' @ [dquote] @ command @ [dquote]"

definition scriptCommand :: "string \<Rightarrow> string \<Rightarrow> string" where
  "scriptCommand RscriptBinaryPath fileLocation =
     [dquote] @ RscriptBinaryPath @ [dquote] @ '' '' @ [dquote] @ fileLocation @ [dquote]"

text \<open>
  The test on the executor's result that ends the three runners (r.js 141-148, 165-172,
  198-205): \<open>undefined\<close> and the empty string are falsy.
\<close>

definition outputOrThrow :: "'j env \<Rightarrow> shell_result \<Rightarrow> error + 'j parsed list" where
  "outputOrThrow env commandResult =
     (case stdout commandResult of
        None \<Rightarrow> Inl (RScriptError (stderr commandResult))
      | Some out \<Rightarrow>
          if out \<noteq> [] then Inr (filterMultiline env out)
          else Inl (RScriptError (stderr commandResult)))"

text \<open>\<open>executeRCommand\<close> (r.js 134-149).\<close>

definition executeRCommand ::
  "'j env \<Rightarrow> string \<Rightarrow> string option \<Rightarrow> error + 'j parsed list" where
  "executeRCommand env command RBinariesLocation =
     (case getRscriptPath env RBinariesLocation of
        Inl e \<Rightarrow> Inl e
      | Inr RscriptBinaryPath \<Rightarrow>
          outputOrThrow env
            (executeShellCommand env (expressionCommand RscriptBinaryPath command)))"

text \<open>
  \<open>executeRCommandAsync\<close> (r.js 158-173): how the promise settles, \<open>Inl\<close> for a
  rejection.
\<close>

definition executeRCommandAsync ::
  "'j env \<Rightarrow> string \<Rightarrow> string option \<Rightarrow> error + 'j parsed list" where
  "executeRCommandAsync env command RBinariesLocation =
     (case getRscriptPath env RBinariesLocation of
        Inl e \<Rightarrow> Inl e
      | Inr RscriptBinaryPath \<Rightarrow>
          outputOrThrow env
            (execShellCommandAsync env (expressionCommand RscriptBinaryPath command)))"

text \<open>\<open>executeRScript\<close> (r.js 186-207).\<close>

definition executeRScript ::
  "'j env \<Rightarrow> string \<Rightarrow> string option \<Rightarrow> error + 'j parsed list" where
  "executeRScript env fileLocation RBinariesLocation =
     (case getRscriptPath env RBinariesLocation of
        Inl e \<Rightarrow> Inl e
      | Inr RscriptBinaryPath \<Rightarrow>
          if \<not> existsSync env fileLocation then
            Inl (Error (''ERROR: the file '' @ [dquote] @ fileLocation @ [dquote]
                          @ '' doesn'' @ [squote] @ ''t exist''))
          else
            outputOrThrow env
              (executeShellCommand env (scriptCommand RscriptBinaryPath fileLocation)))"

text \<open>
  The call operations (r.js 245-277, 288-320, 331-363). A name or a location is
  \<open>undefined\<close> (\<open>None\<close>) or a string, \<open>params\<close> is \<open>undefined\<close> or an array or an
  object; \<open>!x\<close> holds for \<open>undefined\<close> and for the empty string.
\<close>

definition callExpression :: "string \<Rightarrow> string \<Rightarrow> params \<Rightarrow> string" where
  "callExpression fileLocation methodName ps =
     ''source('' @ [squote] @ fileLocation @ [squote] @ ''); print(''
       @ methodSyntax methodName ps @ '')''"

definition callMethod ::
  "'j env \<Rightarrow> string option \<Rightarrow> string option \<Rightarrow> params option \<Rightarrow> string option
     \<Rightarrow> error + 'j parsed list" where
  "callMethod env fileLocation methodName ps RBinariesLocation =
     (case (methodName, fileLocation, ps) of
        (Some m, Some f, Some p) \<Rightarrow>
          if m = [] \<or> f = [] then
            Inl (Error ''ERROR: please provide valid parameters - methodName, fileLocation and params cannot be null'')
          else executeRCommand env (callExpression f m p) RBinariesLocation
      | _ \<Rightarrow>
          Inl (Error ''ERROR: please provide valid parameters - methodName, fileLocation and params cannot be null''))"

definition callMethodAsync ::
  "'j env \<Rightarrow> string option \<Rightarrow> string option \<Rightarrow> params option \<Rightarrow> string option
     \<Rightarrow> error + 'j parsed list" where
  "callMethodAsync env fileLocation methodName ps RBinariesLocation =
     (case (methodName, fileLocation, ps) of
        (Some m, Some f, Some p) \<Rightarrow>
          if m = [] \<or> f = [] then
            Inl (Error ''ERROR: please provide valid parameters - methodName, fileLocation and params cannot be null'')
          else executeRCommandAsync env (callExpression f m p) RBinariesLocation
      | _ \<Rightarrow>
          Inl (Error ''ERROR: please provide valid parameters - methodName, fileLocation and params cannot be null''))"

definition callStandardMethod ::
  "'j env \<Rightarrow> string option \<Rightarrow> params option \<Rightarrow> string option
     \<Rightarrow> error + 'j parsed list" where
  "callStandardMethod env methodName ps RBinariesLocation =
     (case (methodName, ps) of
        (Some m, Some p) \<Rightarrow>
          if m = [] then
            Inl (Error ''ERROR: please provide valid parameters - methodName and params cannot be null'')
          else executeRCommand env (''print('' @ methodSyntax m p @ '')'') RBinariesLocation
      | _ \<Rightarrow>
          Inl (Error ''ERROR: please provide valid parameters - methodName and params cannot be null''))"

section \<open>Specification-level notions\<close>

text \<open>Joining texts with a separator between consecutive ones.\<close>

fun joinWith :: "string \<Rightarrow> string list \<Rightarrow> string" where
  "joinWith sep [] = []"
| "joinWith sep [x] = x"
| "joinWith sep (x # y # ys) = x @ sep @ joinWith sep (y # ys)"

text \<open>
  A sample host for concrete evaluations: \<open>path.join\<close> on segments that need no
  normalisation, an empty directory listing, and a decoder that accepts exactly the
  unsigned decimal numerals (without a leading zero), on which it agrees with
  \<open>JSON.parse\<close>; it is only applied to numerals and to texts that are not JSON.
\<close>

definition decodeNumeral :: "string \<Rightarrow> nat option" where
  "decodeNumeral s =
     (if s \<noteq> [] \<and> list_all is_digit s \<and> (hd s \<noteq> CHR ''0'' \<or> length s = 1)
      then Some (foldl (\<lambda>a c. 10 * a + (of_char c - 48)) 0 s)
      else None)"

definition sampleHost ::
  "string \<Rightarrow> (string \<Rightarrow> bool) \<Rightarrow> (string \<Rightarrow> proc_outcome) \<Rightarrow> nat env" where
  "sampleHost plat present run =
     \<lparr>platform = plat, existsSync = present, readdirSync = (\<lambda>d. Inr []),
      pt_join = joinWith ''/'', subprocess = run, JSON_parse = decodeNumeral\<rparr>"

text \<open>A side of an executor's result is populated when it is not \<open>undefined\<close>.\<close>

definition exactlyOneSide :: "shell_result \<Rightarrow> bool" where
  "exactlyOneSide r = ((stdout r \<noteq> None) \<noteq> (stderr r \<noteq> DUndefined))"

text \<open>
  The two error objects of a command line that exits with a non-zero status, as Node
  builds them: both messages are \<open>Command failed:\<close> and the command line; \<open>exec\<close>
  always adds a line feed and the stderr text, \<open>execSync\<close> only when the stderr text
  is not empty.
\<close>

definition commandFailure :: "string \<Rightarrow> string \<Rightarrow> exec_failure" where
  "commandFailure cmd err =
     \<lparr>thrown = ExecError (''Command failed: '' @ cmd @ (if err = [] then [] else newline # err)),
      passed = ExecError (''Command failed: '' @ cmd @ [newline] @ err)\<rparr>"

text \<open>
  Sample subprocess outcomes: an expression that prints a value and then stops with an
  error, one that succeeds without printing anything, one that prints a value and
  succeeds, and one that exits with status 1 without printing anything.
\<close>

definition failsAfterOutput :: proc_outcome where
  "failsAfterOutput =
     \<lparr>exit_error =
        Some (commandFailure (expressionCommand ''/opt/R/bin/Rscript'' ''print(1); stop()'')
                ''Error: boom''),
      written_stdout = ''[1] 1'' @ [newline],
      written_stderr = ''Error: boom''\<rparr>"

definition silentOutcome :: proc_outcome where
  "silentOutcome = \<lparr>exit_error = None, written_stdout = [], written_stderr = []\<rparr>"

definition printsOne :: proc_outcome where
  "printsOne =
     \<lparr>exit_error = None, written_stdout = ''[1] 1'' @ [newline], written_stderr = []\<rparr>"

definition silentFailure :: proc_outcome where
  "silentFailure =
     \<lparr>exit_error =
        Some (commandFailure (expressionCommand ''/opt/R/bin/Rscript'' ''q(status = 1)'') []),
      written_stdout = [],
      written_stderr = []\<rparr>"

text \<open>
  A sample Linux host with the engine installed under \<open>/opt/R/bin\<close> and a script
  \<open>job.R\<close>, on which every command line has the given outcome.
\<close>

definition sampleEngine :: "proc_outcome \<Rightarrow> nat env" where
  "sampleEngine outcome =
     sampleHost ''linux'' (\<lambda>p. p = ''/opt/R/bin/Rscript'' \<or> p = ''job.R'') (\<lambda>c. outcome)"

text \<open>
  The diagnostic text a script-execution error was constructed with: the message of an
  error object, the text itself, nothing for \<open>undefined\<close>. Two outcomes are the same
  when they are the same parsed output, or script-execution errors with the same
  diagnostic text, or the same error of another kind.
\<close>

fun diagText :: "diag \<Rightarrow> string" where
  "diagText DUndefined = []"
| "diagText (DError e) = message e"
| "diagText (DText t) = t"

fun sameOutcome :: "error + 'a \<Rightarrow> error + 'a \<Rightarrow> bool" where
  "sameOutcome (Inr a) (Inr b) = (a = b)"
| "sameOutcome (Inl (RScriptError d)) (Inl (RScriptError d')) = (diagText d = diagText d')"
| "sameOutcome (Inl e) (Inl e') = (e = e')"
| "sameOutcome (Inl e) (Inr b) = False"
| "sameOutcome (Inr a) (Inl e') = False"

text \<open>
  The platform line separator, and cutting a text at every occurrence of a separator
  text (scanning from the left); the separator is never empty here.
\<close>

definition lineSeparator :: "string \<Rightarrow> string" where
  "lineSeparator os = (if os = ''win'' then [creturn, newline] else [newline])"

function splitOn :: "string \<Rightarrow> string \<Rightarrow> string list" where
  "splitOn sep [] = [[]]"
| "splitOn sep (c # cs) =
     (if sep \<noteq> [] \<and> take (length sep) (c # cs) = sep
      then [] # splitOn sep (drop (length sep) (c # cs))
      else consHead c (splitOn sep cs))"
  by pat_completeness auto
termination
  by (relation "measure (\<lambda>(sep, s). length s)") auto

text \<open>
  Parentheses of a text. \<open>parenScan d s\<close> reads \<open>s\<close> at nesting depth \<open>d\<close> and
  returns the depth at its end, or \<open>None\<close> when a closing parenthesis has no opening
  one; a text is balanced when the scan from depth 0 ends at depth 0.
  \<open>parenDepthFrom d s\<close> is the greatest depth reached on the way.
\<close>

fun parenScan :: "nat \<Rightarrow> string \<Rightarrow> nat option" where
  "parenScan d [] = Some d"
| "parenScan d (c # cs) =
     (if c = CHR ''('' then parenScan (Suc d) cs
      else if c = CHR '')'' then (case d of 0 \<Rightarrow> None | Suc d' \<Rightarrow> parenScan d' cs)
      else parenScan d cs)"

definition balanced :: "string \<Rightarrow> bool" where
  "balanced s = (parenScan 0 s = Some 0)"

fun parenDepthFrom :: "nat \<Rightarrow> string \<Rightarrow> nat" where
  "parenDepthFrom d [] = d"
| "parenDepthFrom d (c # cs) =
     (if c = CHR ''('' then max d (parenDepthFrom (Suc d) cs)
      else if c = CHR '')'' then max d (parenDepthFrom (d - 1) cs)
      else parenDepthFrom d cs)"

definition parenDepth :: "string \<Rightarrow> nat" where
  "parenDepth s = parenDepthFrom 0 s"

text \<open>The nesting depth of a parameter value: a scalar has depth 0.\<close>

fun listDepth :: "jsval \<Rightarrow> nat" where
  "listDepth (JArray xs) = Suc (foldr max (map listDepth xs) 0)"
| "listDepth v = 0"

text \<open>
  Parameters without an empty list at any depth (and not an empty map), and texts
  and parameters without a parenthesis character in a name, a key, a string or the
  text of another scalar.
\<close>

fun nonemptyLists :: "jsval \<Rightarrow> bool" where
  "nonemptyLists (JArray xs) = (xs \<noteq> [] \<and> (\<forall>x \<in> set xs. nonemptyLists x))"
| "nonemptyLists v = True"

fun nonemptyParams :: "params \<Rightarrow> bool" where
  "nonemptyParams (Positional xs) = nonemptyLists (JArray xs)"
| "nonemptyParams (Named kvs) = (kvs \<noteq> [] \<and> (\<forall>kv \<in> set kvs. nonemptyLists (snd kv)))"

definition parenFree :: "string \<Rightarrow> bool" where
  "parenFree s = (CHR ''('' \<notin> set s \<and> CHR '')'' \<notin> set s)"

fun parenFreeValue :: "jsval \<Rightarrow> bool" where
  "parenFreeValue (JArray xs) = (\<forall>x \<in> set xs. parenFreeValue x)"
| "parenFreeValue (JString s) = parenFree s"
| "parenFreeValue (JOther t) = parenFree t"
| "parenFreeValue v = True"

fun parenFreeParams :: "params \<Rightarrow> bool" where
  "parenFreeParams (Positional xs) = (\<forall>x \<in> set xs. parenFreeValue x)"
| "parenFreeParams (Named kvs) =
     (\<forall>kv \<in> set kvs. parenFree (fst kv) \<and> parenFreeValue (snd kv))"

text \<open>
  The serialization written out without the trailing separators: a list is
  \<open>c(\<close>, its elements' serializations joined by commas, \<open>)\<close>; a named entry is
  \<open>key=value\<close>; a call has its arguments joined by commas between the parentheses,
  a positional list being the one argument \<open>c(...)\<close>.
\<close>

fun renderValue :: "jsval \<Rightarrow> string" where
  "renderValue (JArray xs) = ''c('' @ joinWith '','' (map renderValue xs) @ '')''"
| "renderValue (JString s) = [squote] @ s @ [squote]"
| "renderValue JUndefined = ''NA''"
| "renderValue JNull = ''NA''"
| "renderValue (JOther t) = t"

definition renderEntry :: "string \<times> jsval \<Rightarrow> string" where
  "renderEntry kv = fst kv @ ''='' @ renderValue (snd kv)"

definition callText :: "string \<Rightarrow> params \<Rightarrow> string" where
  "callText methodName ps =
     methodName @ ''('' @
       (case ps of
          Positional xs \<Rightarrow> renderValue (JArray xs)
        | Named kvs \<Rightarrow> joinWith '','' (map renderEntry kvs))
       @ '')''"

section \<open>Scalar parameters\<close>

text \<open>
  C8. A string parameter is emitted verbatim between single quotes, whatever its
  characters are, and \<open>undefined\<close> (as well as \<open>null\<close>) is emitted as \<open>NA\<close>, in an
  array as in an object; the text \<open>a'b\<close> shows up unescaped in both kinds of call.
\<close>

theorem scalar_serialization:
  "convertParamsArray (JString s) = [squote] @ s @ [squote] @ '',''
   \<and> convertParamsArray JUndefined = ''NA,''
   \<and> convertParamsArray JNull = ''NA,''
   \<and> namedEntry (k, JString s) = k @ ''='' @ [squote] @ s @ [squote] @ '',''
   \<and> namedEntry (k, JUndefined) = k @ ''=NA,''
   \<and> namedEntry (k, JNull) = k @ ''=NA,''
   \<and> methodSyntax m (Positional [JString s, JUndefined])
       = m @ ''(c('' @ [squote] @ s @ [squote] @ '',NA))''
   \<and> methodSyntax m (Named [(k, JString s), (k', JUndefined)])
       = m @ ''('' @ k @ ''='' @ [squote] @ s @ [squote] @ '','' @ k' @ ''=NA)''"
  by (simp add: methodSyntax_def methodSyntaxOpen_def butlast_append)

theorem scalar_serialization_witness:
  "methodSyntax ''f'' (Positional [JString [CHR ''a'', squote, CHR ''b''], JUndefined])
     = ''f(c('' @ [squote, CHR ''a'', squote, CHR ''b'', squote] @ '',NA))''
   \<and> methodSyntax ''f'' (Named [(''x'', JString [CHR ''a'', squote, CHR ''b'']), (''y'', JUndefined)])
     = ''f(x='' @ [squote, CHR ''a'', squote, CHR ''b'', squote] @ '',y=NA)''"
  using scalar_serialization [of "[CHR ''a'', squote, CHR ''b'']" "''x''" "''f''" "''y''"]
  by simp

section \<open>Platform classification and the locator's last branch\<close>

lemma locateFinish_not_plain: "locateFinish p d \<noteq> Inl (Error m)"
  by (simp add: locateFinish_def split: option.splits)

lemma getCurrentOs_cases:
  "getCurrentOs p = ''win'' \<or> getCurrentOs p = ''lin'' \<or> getCurrentOs p = ''mac''"
  by (simp add: getCurrentOs_def)

lemma getRscriptPath_not_plain: "getRscriptPath env path \<noteq> Inl (Error m)"
proof -
  have w: "locateByWhich env \<noteq> Inl (Error m)"
    by (simp add: locateByWhich_def locateFinish_not_plain split: option.splits)
  have ov: "\<And>d. locateByOverride env d \<noteq> Inl (Error m)"
    by (simp add: locateByOverride_def Let_def locateFinish_not_plain)
  consider "getCurrentOs (platform env) = ''win''" | "getCurrentOs (platform env) = ''lin''"
    | "getCurrentOs (platform env) = ''mac''"
    using getCurrentOs_cases by blast
  then show ?thesis
  proof cases
    case 1
    then show ?thesis
      by (simp add: getRscriptPath_def Let_def locateFinish_not_plain split: option.splits sum.splits)
  next
    case 2
    then show ?thesis
      by (simp add: getRscriptPath_def w ov split: option.splits)
  next
    case 3
    then show ?thesis
      by (simp add: getRscriptPath_def w ov split: option.splits)
  qed
qed

lemma outputOrThrow_not_plain: "outputOrThrow env r \<noteq> Inl (Error m)"
  by (simp add: outputOrThrow_def split: option.splits)

lemma executeRCommand_not_plain: "executeRCommand env c loc \<noteq> Inl (Error m)"
  using getRscriptPath_not_plain [of env loc m]
  by (auto simp: executeRCommand_def outputOrThrow_not_plain split: sum.splits)

lemma executeRCommandAsync_not_plain: "executeRCommandAsync env c loc \<noteq> Inl (Error m)"
  using getRscriptPath_not_plain [of env loc m]
  by (auto simp: executeRCommandAsync_def outputOrThrow_not_plain split: sum.splits)

text \<open>
  C9. The classifier returns \<open>win\<close>, \<open>lin\<close> or \<open>mac\<close> for every platform
  identifier, so the \<open>default\<close> branch of the locator is never taken: neither the
  locator nor any of the six public operations ever fails with the error
  \<open>Cannot determine OS type\<close>.
\<close>

theorem unsupported_platform_unreachable:
  "(getCurrentOs p = ''win'' \<or> getCurrentOs p = ''lin'' \<or> getCurrentOs p = ''mac'')
   \<and> getRscriptPath env loc \<noteq> Inl (Error ''Cannot determine OS type'')
   \<and> executeRCommand env c loc \<noteq> Inl (Error ''Cannot determine OS type'')
   \<and> executeRCommandAsync env c loc \<noteq> Inl (Error ''Cannot determine OS type'')
   \<and> executeRScript env f loc \<noteq> Inl (Error ''Cannot determine OS type'')
   \<and> callMethod env fo mo ps loc \<noteq> Inl (Error ''Cannot determine OS type'')
   \<and> callMethodAsync env fo mo ps loc \<noteq> Inl (Error ''Cannot determine OS type'')
   \<and> callStandardMethod env mo ps loc \<noteq> Inl (Error ''Cannot determine OS type'')"
proof -
  have s: "executeRScript env f loc \<noteq> Inl (Error ''Cannot determine OS type'')"
    using getRscriptPath_not_plain [of env loc "''Cannot determine OS type''"]
    by (auto simp: executeRScript_def outputOrThrow_not_plain split: sum.splits)
  have c1: "callMethod env fo mo ps loc \<noteq> Inl (Error ''Cannot determine OS type'')"
    by (simp add: callMethod_def executeRCommand_not_plain split: option.splits)
  have c2: "callMethodAsync env fo mo ps loc \<noteq> Inl (Error ''Cannot determine OS type'')"
    by (simp add: callMethodAsync_def executeRCommandAsync_not_plain split: option.splits)
  have c3: "callStandardMethod env mo ps loc \<noteq> Inl (Error ''Cannot determine OS type'')"
    by (simp add: callStandardMethod_def executeRCommand_not_plain split: option.splits)
  show ?thesis
    using getCurrentOs_cases getRscriptPath_not_plain executeRCommand_not_plain
      executeRCommandAsync_not_plain s c1 c2 c3 by blast
qed

theorem unsupported_platform_unreachable_witness:
  "getCurrentOs ''sunos'' = ''mac''
   \<and> getRscriptPath
         (sampleHost ''sunos'' (\<lambda>p. False)
            (\<lambda>c. \<lparr>exit_error = None, written_stdout = [], written_stderr = []\<rparr>))
         None
       \<noteq> Inl (Error ''Cannot determine OS type'')"
  using unsupported_platform_unreachable
    [of "''sunos''"
        "sampleHost ''sunos'' (\<lambda>p. False)
           (\<lambda>c. \<lparr>exit_error = None, written_stdout = [], written_stderr = []\<rparr>)"
        None]
  by (simp add: getCurrentOs_def)

section \<open>Process executor\<close>

text \<open>
  C2, as amended. The synchronous executor returns exactly one populated side: when
  the command succeeded, \<open>stdout\<close> is the raw stdout text and \<open>stderr\<close> is undefined;
  otherwise \<open>stdout\<close> is undefined and \<open>stderr\<close> is the caught error. The asynchronous
  executor always returns both sides populated: the raw stdout, and as \<open>stderr\<close> the
  error's message when the command failed and the raw stderr text otherwise.
\<close>

theorem executor_sides:
  "exactlyOneSide (executeShellCommand env command)
   \<and> stdout (executeShellCommand env command)
       = (case exit_error (subprocess env command) of
            None \<Rightarrow> Some (written_stdout (subprocess env command))
          | Some e \<Rightarrow> None)
   \<and> stderr (executeShellCommand env command)
       = (case exit_error (subprocess env command) of
            None \<Rightarrow> DUndefined
          | Some e \<Rightarrow> DError (thrown e))
   \<and> stdout (execShellCommandAsync env command)
       = Some (written_stdout (subprocess env command))
   \<and> stderr (execShellCommandAsync env command)
       = DText (case exit_error (subprocess env command) of
                  Some err \<Rightarrow> message (passed err)
                | None \<Rightarrow> written_stderr (subprocess env command))
   \<and> \<not> exactlyOneSide (execShellCommandAsync env command)"
  by (simp add: exactlyOneSide_def executeShellCommand_def execShellCommandAsync_def
      split: option.splits)

theorem executor_sides_witness:
  "stdout (executeShellCommand (sampleEngine printsOne) ''Rscript -e 1'')
     = Some (''[1] 1'' @ [newline])
   \<and> stderr (executeShellCommand (sampleEngine printsOne) ''Rscript -e 1'') = DUndefined
   \<and> stdout (executeShellCommand (sampleEngine failsAfterOutput) ''Rscript -e 1'') = None
   \<and> stderr (executeShellCommand (sampleEngine failsAfterOutput) ''Rscript -e 1'')
     = DError
         (ExecError
            (''Command failed: ''
               @ expressionCommand ''/opt/R/bin/Rscript'' ''print(1); stop()''
               @ [newline] @ ''Error: boom''))
   \<and> exactlyOneSide (executeShellCommand (sampleEngine failsAfterOutput) ''Rscript -e 1'')
   \<and> stdout (execShellCommandAsync (sampleEngine failsAfterOutput) ''Rscript -e 1'')
     = Some (''[1] 1'' @ [newline])
   \<and> stderr (execShellCommandAsync (sampleEngine failsAfterOutput) ''Rscript -e 1'')
     = DText
         (''Command failed: ''
            @ expressionCommand ''/opt/R/bin/Rscript'' ''print(1); stop()''
            @ [newline] @ ''Error: boom'')"
  using executor_sides [of "sampleEngine printsOne" "''Rscript -e 1''"]
    executor_sides [of "sampleEngine failsAfterOutput" "''Rscript -e 1''"]
  by (simp add: sampleEngine_def sampleHost_def printsOne_def failsAfterOutput_def
      commandFailure_def)

text \<open>
  The claim as stated fails for the asynchronous executor: a command that succeeds,
  printing a value and a warning, gives a result with both sides populated.
\<close>

theorem executor_sides_counterexample:
  "\<not> exactlyOneSide
       (execShellCommandAsync
          (sampleHost ''linux'' (\<lambda>p. True)
             (\<lambda>c. \<lparr>exit_error = None, written_stdout = ''[1] 1'',
                   written_stderr = ''Warning message: NAs introduced''\<rparr>))
          ''Rscript -e 1'')
   \<and> stdout
        (execShellCommandAsync
           (sampleHost ''linux'' (\<lambda>p. True)
              (\<lambda>c. \<lparr>exit_error = None, written_stdout = ''[1] 1'',
                    written_stderr = ''Warning message: NAs introduced''\<rparr>))
           ''Rscript -e 1'')
       = Some ''[1] 1''
   \<and> stderr
        (execShellCommandAsync
           (sampleHost ''linux'' (\<lambda>p. True)
              (\<lambda>c. \<lparr>exit_error = None, written_stdout = ''[1] 1'',
                    written_stderr = ''Warning message: NAs introduced''\<rparr>))
           ''Rscript -e 1'')
       = DText ''Warning message: NAs introduced''"
  by (simp add: exactlyOneSide_def execShellCommandAsync_def sampleHost_def)

section \<open>Engine locator\<close>

text \<open>
  C3, as amended. On a platform not classified \<open>win\<close>, with a non-empty override
  directory \<open>D\<close> and no file at \<open>path.join(D, "Rscript")\<close>, the locator fails with the
  engine-not-found error constructed with the composed location
  \<open>path.join(D, "Rscript")\<close>, which is the text its message shows.
\<close>

theorem override_not_found:
  assumes "getCurrentOs (platform env) \<noteq> ''win''"
    and "D \<noteq> []"
    and "\<not> existsSync env (pt_join env [D, ''Rscript''])"
  shows "getRscriptPath env (Some D)
           = Inl (REngineNotFoundError (Some (pt_join env [D, ''Rscript''])))
         \<and> engineNotFoundMessage (Some (pt_join env [D, ''Rscript'']))
           = ''R Engine not found. See www.r-project.org. (path: ''
               @ pt_join env [D, ''Rscript''] @ '')''"
proof -
  have "getCurrentOs (platform env) = ''lin'' \<or> getCurrentOs (platform env) = ''mac''"
    using assms(1) getCurrentOs_cases by blast
  then have "getRscriptPath env (Some D) = locateByOverride env D"
    using assms(2) by (auto simp: getRscriptPath_def)
  then show ?thesis
    using assms(3) by (simp add: locateByOverride_def locateFinish_def engineNotFoundMessage_def)
qed

theorem override_not_found_witness:
  "getRscriptPath
     (sampleHost ''linux'' (\<lambda>p. False)
        (\<lambda>c. \<lparr>exit_error = None, written_stdout = [], written_stderr = []\<rparr>))
     (Some ''/opt/R'')
   = Inl (REngineNotFoundError (Some ''/opt/R/Rscript''))"
proof -
  let ?env = "sampleHost ''linux'' (\<lambda>p. False)
        (\<lambda>c. \<lparr>exit_error = None, written_stdout = [], written_stderr = []\<rparr>)"
  have 1: "getCurrentOs (platform ?env) \<noteq> ''win''"
    by (simp add: sampleHost_def getCurrentOs_def)
  have 2: "''/opt/R'' \<noteq> []" by simp
  have 3: "\<not> existsSync ?env (pt_join ?env [''/opt/R'', ''Rscript''])"
    by (simp add: sampleHost_def)
  show ?thesis
    using override_not_found [OF 1 2 3] by (simp add: sampleHost_def)
qed

text \<open>
  The claim as stated fails: the error does not carry the override directory
  \<open>/opt/R\<close> that was given, but the composed location \<open>/opt/R/Rscript\<close>.
\<close>

theorem override_not_found_counterexample:
  "getRscriptPath
     (sampleHost ''linux'' (\<lambda>p. False)
        (\<lambda>c. \<lparr>exit_error = None, written_stdout = [], written_stderr = []\<rparr>))
     (Some ''/opt/R'')
   \<noteq> Inl (REngineNotFoundError (Some ''/opt/R''))
   \<and> getRscriptPath
     (sampleHost ''linux'' (\<lambda>p. False)
        (\<lambda>c. \<lparr>exit_error = None, written_stdout = [], written_stderr = []\<rparr>))
     (Some ''/opt/R'')
   = Inl (REngineNotFoundError (Some ''/opt/R/Rscript''))"
  by (simp add: getRscriptPath_def getCurrentOs_def sampleHost_def locateByOverride_def
      locateFinish_def)

section \<open>The runners\<close>

lemma outputOrThrow_sync:
  "outputOrThrow env (executeShellCommand env c) =
     (if exit_error (subprocess env c) = None \<and> written_stdout (subprocess env c) \<noteq> []
      then Inr (filterMultiline env (written_stdout (subprocess env c)))
      else Inl (RScriptError
                  (case exit_error (subprocess env c) of
                     None \<Rightarrow> DUndefined
                   | Some e \<Rightarrow> DError (thrown e))))"
  by (simp add: outputOrThrow_def executeShellCommand_def split: option.splits)

lemma outputOrThrow_async:
  "outputOrThrow env (execShellCommandAsync env c) =
     (if written_stdout (subprocess env c) \<noteq> []
      then Inr (filterMultiline env (written_stdout (subprocess env c)))
      else Inl (RScriptError
                  (DText (case exit_error (subprocess env c) of
                            Some e \<Rightarrow> message (passed e)
                          | None \<Rightarrow> written_stderr (subprocess env c)))))"
  by (simp add: outputOrThrow_def execShellCommandAsync_def split: option.splits)

text \<open>
  C5, as amended. Once the engine is located (and, for a script file, the file exists),
  the synchronous runners raise the script-execution error exactly when the subprocess
  failed or wrote nothing to stdout, constructed with the caught error object, or with
  \<open>undefined\<close> when the subprocess succeeded silently; the asynchronous runner raises
  it exactly when the subprocess wrote nothing to stdout, constructed with the error's
  message when the subprocess failed and with the raw stderr text otherwise. In every
  other case the parsed stdout is returned.
\<close>

theorem script_error_condition:
  assumes "getRscriptPath env loc = Inr p"
  shows "(let r = subprocess env (expressionCommand p command) in
            executeRCommand env command loc =
              (if exit_error r = None \<and> written_stdout r \<noteq> []
               then Inr (filterMultiline env (written_stdout r))
               else Inl (RScriptError
                           (case exit_error r of
                              None \<Rightarrow> DUndefined
                            | Some e \<Rightarrow> DError (thrown e))))
            \<and> executeRCommandAsync env command loc =
              (if written_stdout r \<noteq> []
               then Inr (filterMultiline env (written_stdout r))
               else Inl (RScriptError
                           (DText (case exit_error r of
                                     Some e \<Rightarrow> message (passed e)
                                   | None \<Rightarrow> written_stderr r)))))
         \<and> (existsSync env file \<longrightarrow>
              (let r = subprocess env (scriptCommand p file) in
                 executeRScript env file loc =
                   (if exit_error r = None \<and> written_stdout r \<noteq> []
                    then Inr (filterMultiline env (written_stdout r))
                    else Inl (RScriptError
                                (case exit_error r of
                                   None \<Rightarrow> DUndefined
                                 | Some e \<Rightarrow> DError (thrown e))))))"
  using assms
  by (simp add: executeRCommand_def executeRCommandAsync_def executeRScript_def
      outputOrThrow_sync outputOrThrow_async Let_def)

lemma sampleEngine_located:
  "getRscriptPath (sampleEngine outcome) (Some ''/opt/R/bin'') = Inr ''/opt/R/bin/Rscript''"
  by (simp add: getRscriptPath_def getCurrentOs_def sampleEngine_def sampleHost_def
      locateByOverride_def locateFinish_def)

lemma filterMultiline_sample_one:
  "filterMultiline (sampleEngine outcome) (''[1] 1'' @ [newline]) = [PJson 1]"
  by (simp add: filterMultiline_def normalizeOutput_def getCurrentOs_def sampleEngine_def
      sampleHost_def stripTrailing_def is_digit_def is_space_def decodeNumeral_def)

theorem script_error_condition_witness:
  "executeRCommand (sampleEngine failsAfterOutput) ''print(1); stop()'' (Some ''/opt/R/bin'')
     = Inl (RScriptError (DError
                 (ExecError
                    (''Command failed: ''
                       @ expressionCommand ''/opt/R/bin/Rscript'' ''print(1); stop()''
                       @ [newline] @ ''Error: boom''))))
   \<and> executeRCommandAsync (sampleEngine failsAfterOutput) ''print(1); stop()''
       (Some ''/opt/R/bin'')
     = Inr [PJson 1]
   \<and> executeRScript (sampleEngine silentOutcome) ''job.R'' (Some ''/opt/R/bin'')
     = Inl (RScriptError DUndefined)"
  using script_error_condition
      [OF sampleEngine_located, of failsAfterOutput "''print(1); stop()''" "''job.R''"]
    script_error_condition
      [OF sampleEngine_located, of silentOutcome "''print(1); stop()''" "''job.R''"]
    filterMultiline_sample_one [of failsAfterOutput]
  by (simp add: sampleEngine_def sampleHost_def failsAfterOutput_def silentOutcome_def Let_def
      commandFailure_def)

text \<open>
  The claim as stated fails on the synchronous path: the subprocess wrote
  \<open>[1] 1\<close> to stdout and then failed, and the script-execution error is raised
  although stdout is not empty.
\<close>

theorem script_error_condition_counterexample:
  "executeRCommand (sampleEngine failsAfterOutput) ''print(1); stop()'' (Some ''/opt/R/bin'')
     = Inl (RScriptError (DError
                 (ExecError
                    (''Command failed: ''
                       @ expressionCommand ''/opt/R/bin/Rscript'' ''print(1); stop()''
                       @ [newline] @ ''Error: boom''))))
   \<and> written_stdout
       (subprocess (sampleEngine failsAfterOutput)
          (expressionCommand ''/opt/R/bin/Rscript'' ''print(1); stop()''))
     = ''[1] 1'' @ [newline]
   \<and> written_stdout
       (subprocess (sampleEngine failsAfterOutput)
          (expressionCommand ''/opt/R/bin/Rscript'' ''print(1); stop()''))
     \<noteq> []"
  by (simp add: executeRCommand_def sampleEngine_located outputOrThrow_sync)
     (simp add: sampleEngine_def sampleHost_def failsAfterOutput_def commandFailure_def)

lemma sameOutcome_refl: "sameOutcome x x"
proof (cases x)
  case (Inl e)
  then show ?thesis by (cases e) simp_all
next
  case (Inr a)
  then show ?thesis by simp
qed

text \<open>
  C7, as amended. The two expression-runners produce the same outcome when the engine
  is not found, and otherwise exactly when the subprocess either wrote to stdout and
  exited successfully (the same parsed output), or wrote nothing to stdout and
  succeeded leaving stderr empty, or wrote nothing to stdout and failed with the error
  that \<open>execSync\<close> throws and the error that \<open>exec\<close> passes having the same message.
  They differ when the subprocess fails after writing to stdout, when it succeeds
  having written to stderr only, and when it fails without output and the two messages
  differ.
\<close>

theorem runners_agreement:
  "(getRscriptPath env loc = Inl e \<longrightarrow>
      sameOutcome (executeRCommand env command loc) (executeRCommandAsync env command loc))
   \<and> (getRscriptPath env loc = Inr p \<longrightarrow>
        (let r = subprocess env (expressionCommand p command) in
           sameOutcome (executeRCommand env command loc)
               (executeRCommandAsync env command loc)
           = (if written_stdout r \<noteq> [] then exit_error r = None
              else (case exit_error r of
                      None \<Rightarrow> written_stderr r = []
                    | Some f \<Rightarrow> message (thrown f) = message (passed f))))
        \<and> (exit_error (subprocess env (expressionCommand p command)) = None
             \<and> written_stdout (subprocess env (expressionCommand p command)) \<noteq> []
             \<longrightarrow> executeRCommand env command loc
                   = Inr (filterMultiline env
                            (written_stdout (subprocess env (expressionCommand p command))))
                 \<and> executeRCommandAsync env command loc
                   = Inr (filterMultiline env
                            (written_stdout (subprocess env (expressionCommand p command))))))"
proof (intro conjI impI)
  assume "getRscriptPath env loc = Inl e"
  then show "sameOutcome (executeRCommand env command loc)
      (executeRCommandAsync env command loc)"
    by (simp add: executeRCommand_def executeRCommandAsync_def sameOutcome_refl)
next
  assume "getRscriptPath env loc = Inr p"
  then show "let r = subprocess env (expressionCommand p command) in
           sameOutcome (executeRCommand env command loc)
               (executeRCommandAsync env command loc)
           = (if written_stdout r \<noteq> [] then exit_error r = None
              else (case exit_error r of
                      None \<Rightarrow> written_stderr r = []
                    | Some f \<Rightarrow> message (thrown f) = message (passed f)))"
    by (auto simp: executeRCommand_def executeRCommandAsync_def outputOrThrow_sync
        outputOrThrow_async Let_def split: option.splits)
next
  assume "getRscriptPath env loc = Inr p"
    and "exit_error (subprocess env (expressionCommand p command)) = None
         \<and> written_stdout (subprocess env (expressionCommand p command)) \<noteq> []"
  then show "executeRCommand env command loc
               = Inr (filterMultiline env
                        (written_stdout (subprocess env (expressionCommand p command))))"
    by (simp add: executeRCommand_def outputOrThrow_sync)
next
  assume "getRscriptPath env loc = Inr p"
    and "exit_error (subprocess env (expressionCommand p command)) = None
         \<and> written_stdout (subprocess env (expressionCommand p command)) \<noteq> []"
  then show "executeRCommandAsync env command loc
               = Inr (filterMultiline env
                        (written_stdout (subprocess env (expressionCommand p command))))"
    by (simp add: executeRCommandAsync_def outputOrThrow_async)
qed

theorem runners_agreement_witness:
  "executeRCommand (sampleEngine printsOne) ''print(1)'' (Some ''/opt/R/bin'') = Inr [PJson 1]
   \<and> executeRCommandAsync (sampleEngine printsOne) ''print(1)'' (Some ''/opt/R/bin'')
       = Inr [PJson 1]
   \<and> sameOutcome
       (executeRCommand (sampleEngine printsOne) ''print(1)'' (Some ''/opt/R/bin''))
       (executeRCommandAsync (sampleEngine printsOne) ''print(1)'' (Some ''/opt/R/bin''))
   \<and> sameOutcome
       (executeRCommand (sampleEngine silentOutcome) ''invisible(1)'' (Some ''/opt/R/bin''))
       (executeRCommandAsync (sampleEngine silentOutcome) ''invisible(1)''
          (Some ''/opt/R/bin''))
   \<and> sameOutcome
       (executeRCommand (sampleEngine silentOutcome) ''invisible(1)'' (Some ''/no/R''))
       (executeRCommandAsync (sampleEngine silentOutcome) ''invisible(1)'' (Some ''/no/R''))
   \<and> \<not> sameOutcome
       (executeRCommand (sampleEngine silentFailure) ''q(status = 1)'' (Some ''/opt/R/bin''))
       (executeRCommandAsync (sampleEngine silentFailure) ''q(status = 1)''
          (Some ''/opt/R/bin''))"
proof -
  have nf: "getRscriptPath (sampleEngine silentOutcome) (Some ''/no/R'')
              = Inl (REngineNotFoundError (Some ''/no/R/Rscript''))"
    by (simp add: getRscriptPath_def getCurrentOs_def sampleEngine_def sampleHost_def
        locateByOverride_def locateFinish_def)
  have one: "written_stdout (subprocess (sampleEngine printsOne) c) = ''[1] 1'' @ [newline]
             \<and> exit_error (subprocess (sampleEngine printsOne) c) = None" for c
    by (simp add: sampleEngine_def sampleHost_def printsOne_def)
  have p: "executeRCommand (sampleEngine printsOne) ''print(1)'' (Some ''/opt/R/bin'')
             = Inr [PJson 1]
           \<and> executeRCommandAsync (sampleEngine printsOne) ''print(1)'' (Some ''/opt/R/bin'')
             = Inr [PJson 1]
           \<and> sameOutcome
               (executeRCommand (sampleEngine printsOne) ''print(1)'' (Some ''/opt/R/bin''))
               (executeRCommandAsync (sampleEngine printsOne) ''print(1)''
                  (Some ''/opt/R/bin''))"
    using runners_agreement
        [of "sampleEngine printsOne" "Some ''/opt/R/bin''" _ "''print(1)''"
            "''/opt/R/bin/Rscript''"]
      sampleEngine_located [of printsOne] filterMultiline_sample_one [of printsOne] one
    by (simp add: Let_def)
  have s: "sameOutcome
       (executeRCommand (sampleEngine silentOutcome) ''invisible(1)'' (Some ''/opt/R/bin''))
       (executeRCommandAsync (sampleEngine silentOutcome) ''invisible(1)''
          (Some ''/opt/R/bin''))"
    using runners_agreement
        [of "sampleEngine silentOutcome" "Some ''/opt/R/bin''" _ "''invisible(1)''"
            "''/opt/R/bin/Rscript''"]
      sampleEngine_located [of silentOutcome]
    by (simp add: sampleEngine_def sampleHost_def silentOutcome_def Let_def)
  have n: "sameOutcome
       (executeRCommand (sampleEngine silentOutcome) ''invisible(1)'' (Some ''/no/R''))
       (executeRCommandAsync (sampleEngine silentOutcome) ''invisible(1)'' (Some ''/no/R''))"
    using runners_agreement
        [of "sampleEngine silentOutcome" "Some ''/no/R''"
            "REngineNotFoundError (Some ''/no/R/Rscript'')" "''invisible(1)''"]
      nf
    by simp
  have f: "\<not> sameOutcome
       (executeRCommand (sampleEngine silentFailure) ''q(status = 1)'' (Some ''/opt/R/bin''))
       (executeRCommandAsync (sampleEngine silentFailure) ''q(status = 1)''
          (Some ''/opt/R/bin''))"
    using runners_agreement
        [of "sampleEngine silentFailure" "Some ''/opt/R/bin''" _ "''q(status = 1)''"
            "''/opt/R/bin/Rscript''"]
      sampleEngine_located [of silentFailure]
    by (simp add: sampleEngine_def sampleHost_def silentFailure_def commandFailure_def Let_def)
  show ?thesis
    using p s n f by blast
qed

text \<open>
  The claim as stated fails: for one and the same subprocess outcome (a value printed
  to stdout, then a failure), the synchronous runner raises the script-execution error
  and the asynchronous runner returns the parsed stdout.
\<close>

theorem runners_agreement_counterexample:
  "executeRCommand (sampleEngine failsAfterOutput) ''print(1); stop()'' (Some ''/opt/R/bin'')
     = Inl (RScriptError (DError
                 (ExecError
                    (''Command failed: ''
                       @ expressionCommand ''/opt/R/bin/Rscript'' ''print(1); stop()''
                       @ [newline] @ ''Error: boom''))))
   \<and> executeRCommandAsync (sampleEngine failsAfterOutput) ''print(1); stop()''
        (Some ''/opt/R/bin'')
     = Inr [PJson 1]
   \<and> \<not> sameOutcome
        (executeRCommand (sampleEngine failsAfterOutput) ''print(1); stop()''
           (Some ''/opt/R/bin''))
        (executeRCommandAsync (sampleEngine failsAfterOutput) ''print(1); stop()''
           (Some ''/opt/R/bin''))"
proof -
  have s: "executeRCommand (sampleEngine failsAfterOutput) ''print(1); stop()''
             (Some ''/opt/R/bin'')
           = Inl (RScriptError (DError
                 (ExecError
                    (''Command failed: ''
                       @ expressionCommand ''/opt/R/bin/Rscript'' ''print(1); stop()''
                       @ [newline] @ ''Error: boom''))))"
    by (simp add: executeRCommand_def sampleEngine_located outputOrThrow_sync)
       (simp add: sampleEngine_def sampleHost_def failsAfterOutput_def commandFailure_def)
  have "written_stdout (subprocess (sampleEngine failsAfterOutput) c) = ''[1] 1'' @ [newline]"
    for c
    by (simp add: sampleEngine_def sampleHost_def failsAfterOutput_def)
  then have a: "executeRCommandAsync (sampleEngine failsAfterOutput) ''print(1); stop()''
             (Some ''/opt/R/bin'')
           = Inr [PJson 1]"
    using filterMultiline_sample_one [of failsAfterOutput]
    by (simp add: executeRCommandAsync_def sampleEngine_located outputOrThrow_async)
  show ?thesis
    by (simp add: s a)
qed

section \<open>Silent scripts\<close>

lemma splitRuns_nonempty: "splitRuns P s \<noteq> []"
  by (induction P s rule: splitRuns.induct) (auto elim: consHead.elims)

lemma filterMultiline_nonempty: "filterMultiline env s \<noteq> []"
  by (simp add: filterMultiline_def Let_def splitRuns_nonempty split: option.splits)

lemma outputOrThrow_nonempty: "outputOrThrow env r \<noteq> Inr []"
  by (simp add: outputOrThrow_def filterMultiline_nonempty split: option.splits)

lemma executeRCommand_nonempty: "executeRCommand env c loc \<noteq> Inr []"
  by (simp add: executeRCommand_def outputOrThrow_nonempty split: sum.splits)

lemma executeRCommandAsync_nonempty: "executeRCommandAsync env c loc \<noteq> Inr []"
  by (simp add: executeRCommandAsync_def outputOrThrow_nonempty split: sum.splits)

text \<open>
  C10. When the subprocess exits successfully and writes nothing to stdout, every
  operation raises the script-execution error: the synchronous ones with no
  diagnostic (\<open>undefined\<close>), the asynchronous ones with the stderr text, which is
  empty when stderr is empty. No operation ever returns an empty parsed sequence.
\<close>

theorem silent_script_fails:
  assumes "getRscriptPath env loc = Inr p"
  shows "(exit_error (subprocess env (expressionCommand p command)) = None
            \<and> written_stdout (subprocess env (expressionCommand p command)) = []
          \<longrightarrow> executeRCommand env command loc = Inl (RScriptError DUndefined)
            \<and> executeRCommandAsync env command loc
                = Inl (RScriptError
                         (DText (written_stderr
                                   (subprocess env (expressionCommand p command))))))
       \<and> (existsSync env file
            \<and> exit_error (subprocess env (scriptCommand p file)) = None
            \<and> written_stdout (subprocess env (scriptCommand p file)) = []
          \<longrightarrow> executeRScript env file loc = Inl (RScriptError DUndefined))
       \<and> (m \<noteq> [] \<and> f \<noteq> []
            \<and> exit_error (subprocess env (expressionCommand p (callExpression f m ps))) = None
            \<and> written_stdout (subprocess env (expressionCommand p (callExpression f m ps))) = []
          \<longrightarrow> callMethod env (Some f) (Some m) (Some ps) loc = Inl (RScriptError DUndefined)
            \<and> callMethodAsync env (Some f) (Some m) (Some ps) loc
                = Inl (RScriptError
                         (DText (written_stderr
                                   (subprocess env
                                      (expressionCommand p (callExpression f m ps)))))))
       \<and> (m \<noteq> []
            \<and> exit_error
                (subprocess env (expressionCommand p (''print('' @ methodSyntax m ps @ '')'')))
                = None
            \<and> written_stdout
                (subprocess env (expressionCommand p (''print('' @ methodSyntax m ps @ '')'')))
                = []
          \<longrightarrow> callStandardMethod env (Some m) (Some ps) loc = Inl (RScriptError DUndefined))
       \<and> executeRCommand env command loc \<noteq> Inr []
       \<and> executeRCommandAsync env command loc \<noteq> Inr []
       \<and> executeRScript env file loc \<noteq> Inr []
       \<and> callMethod env fo mo pso loc \<noteq> Inr []
       \<and> callMethodAsync env fo mo pso loc \<noteq> Inr []
       \<and> callStandardMethod env mo pso loc \<noteq> Inr []"
proof -
  have sync: "\<And>c. exit_error (subprocess env (expressionCommand p c)) = None
                 \<and> written_stdout (subprocess env (expressionCommand p c)) = []
              \<Longrightarrow> executeRCommand env c loc = Inl (RScriptError DUndefined)"
    using assms by (simp add: executeRCommand_def outputOrThrow_sync)
  have async: "\<And>c. exit_error (subprocess env (expressionCommand p c)) = None
                 \<and> written_stdout (subprocess env (expressionCommand p c)) = []
              \<Longrightarrow> executeRCommandAsync env c loc
                    = Inl (RScriptError
                             (DText (written_stderr (subprocess env (expressionCommand p c)))))"
    using assms by (simp add: executeRCommandAsync_def outputOrThrow_async)
  have script: "existsSync env file
            \<and> exit_error (subprocess env (scriptCommand p file)) = None
            \<and> written_stdout (subprocess env (scriptCommand p file)) = []
          \<longrightarrow> executeRScript env file loc = Inl (RScriptError DUndefined)"
    using assms by (simp add: executeRScript_def outputOrThrow_sync)
  have ne1: "executeRScript env file loc \<noteq> Inr []"
    by (simp add: executeRScript_def outputOrThrow_nonempty split: sum.splits)
  have ne2: "callMethod env fo mo pso loc \<noteq> Inr []"
    by (simp add: callMethod_def executeRCommand_nonempty split: option.splits)
  have ne3: "callMethodAsync env fo mo pso loc \<noteq> Inr []"
    by (simp add: callMethodAsync_def executeRCommandAsync_nonempty split: option.splits)
  have ne4: "callStandardMethod env mo pso loc \<noteq> Inr []"
    by (simp add: callStandardMethod_def executeRCommand_nonempty split: option.splits)
  have cm: "m \<noteq> [] \<and> f \<noteq> []
            \<and> exit_error (subprocess env (expressionCommand p (callExpression f m ps))) = None
            \<and> written_stdout (subprocess env (expressionCommand p (callExpression f m ps))) = []
          \<longrightarrow> callMethod env (Some f) (Some m) (Some ps) loc = Inl (RScriptError DUndefined)
            \<and> callMethodAsync env (Some f) (Some m) (Some ps) loc
                = Inl (RScriptError
                         (DText (written_stderr
                                   (subprocess env
                                      (expressionCommand p (callExpression f m ps))))))"
    using sync [of "callExpression f m ps"] async [of "callExpression f m ps"]
    by (simp add: callMethod_def callMethodAsync_def)
  have cs: "m \<noteq> []
            \<and> exit_error
                (subprocess env (expressionCommand p (''print('' @ methodSyntax m ps @ '')'')))
                = None
            \<and> written_stdout
                (subprocess env (expressionCommand p (''print('' @ methodSyntax m ps @ '')'')))
                = []
          \<longrightarrow> callStandardMethod env (Some m) (Some ps) loc = Inl (RScriptError DUndefined)"
    using sync [of "''print('' @ methodSyntax m ps @ '')''"]
    by (simp add: callStandardMethod_def)
  show ?thesis
    using sync [of command] async [of command] script cm cs ne1 ne2 ne3 ne4
      executeRCommand_nonempty [of env command loc]
      executeRCommandAsync_nonempty [of env command loc]
    by blast
qed

theorem silent_script_fails_witness:
  "executeRCommand (sampleEngine silentOutcome) ''invisible(1)'' (Some ''/opt/R/bin'')
     = Inl (RScriptError DUndefined)
   \<and> executeRCommandAsync (sampleEngine silentOutcome) ''invisible(1)'' (Some ''/opt/R/bin'')
     = Inl (RScriptError (DText []))
   \<and> executeRScript (sampleEngine silentOutcome) ''job.R'' (Some ''/opt/R/bin'')
     = Inl (RScriptError DUndefined)
   \<and> callMethod (sampleEngine silentOutcome) (Some ''job.R'') (Some ''f'')
       (Some (Positional [JOther ''1''])) (Some ''/opt/R/bin'')
     = Inl (RScriptError DUndefined)
   \<and> callMethodAsync (sampleEngine silentOutcome) (Some ''job.R'') (Some ''f'')
       (Some (Positional [JOther ''1''])) (Some ''/opt/R/bin'')
     = Inl (RScriptError (DText []))
   \<and> callStandardMethod (sampleEngine silentOutcome) (Some ''f'')
       (Some (Positional [JOther ''1''])) (Some ''/opt/R/bin'')
     = Inl (RScriptError DUndefined)"
  using silent_script_fails
      [OF sampleEngine_located, of silentOutcome "''invisible(1)''" "''job.R''" "''f''"
          "''job.R''" "Positional [JOther ''1'']"]
  by (simp add: sampleEngine_def sampleHost_def silentOutcome_def)

section \<open>Output parser\<close>

lemma collapseSpace_start:
  "s = [] \<or> \<not> is_space (hd s) \<Longrightarrow>
   collapseSpace sep s = [] \<or> \<not> is_space (hd (collapseSpace sep s))"
  by (cases s) auto

lemma dropWhile_start: "dropWhile P s = [] \<or> \<not> P (hd (dropWhile P s))"
  using hd_dropWhile [of P s] by blast

lemma dropWhile_clean:
  assumes "\<And>c. P c \<Longrightarrow> is_space c" and "t = [] \<or> \<not> is_space (hd t)"
  shows "dropWhile P t = t"
  using assms by (cases t) auto

lemma splitRuns_separator:
  assumes sep: "sep \<noteq> []" "\<And>c. c \<in> set sep \<Longrightarrow> P c"
    and cls: "\<And>c. P c \<Longrightarrow> is_space c"
    and t: "t = [] \<or> \<not> is_space (hd t)"
  shows "splitRuns P (sep @ t) = [] # splitRuns P t"
proof -
  obtain s0 srest where s: "sep = s0 # srest"
    using sep(1) by (cases sep) auto
  have "dropWhile P (srest @ t) = dropWhile P t"
    using sep(2) s by (simp add: dropWhile_append)
  also have "\<dots> = t"
    using cls t by (rule dropWhile_clean)
  finally show ?thesis
    using sep(2) s by simp
qed

lemma splitOn_separator:
  assumes "sep \<noteq> []"
  shows "splitOn sep (sep @ t) = [] # splitOn sep t"
proof -
  obtain s0 srest where s: "sep = s0 # srest"
    using assms by (cases sep) auto
  then have "splitOn sep (s0 # (srest @ t)) = [] # splitOn sep t"
    by (subst splitOn.simps) simp
  then show ?thesis using s by simp
qed

lemma splitOn_other:
  assumes "sep \<noteq> []" "c \<noteq> hd sep"
  shows "splitOn sep (c # u) = consHead c (splitOn sep u)"
proof -
  obtain s0 srest where s: "sep = s0 # srest"
    using assms(1) by (cases sep) auto
  then show ?thesis using assms(2) by auto
qed

lemma split_collapsed:
  assumes sep: "sep \<noteq> []" "\<And>c. c \<in> set sep \<Longrightarrow> P c"
    and cls: "\<And>c. P c \<Longrightarrow> is_space c"
  shows "splitRuns P (collapseSpace sep s) = splitOn sep (collapseSpace sep s)"
  using sep cls
proof (induction sep s rule: collapseSpace.induct)
  case (1 sep)
  then show ?case by simp
next
  case (2 sep c cs)
  note ne = "2.prems"(1) and inP = "2.prems"(2) and sp = "2.prems"(3)
  show ?case
  proof (cases "is_space c")
    case True
    let ?t = "collapseSpace sep (dropWhile is_space cs)"
    have t: "?t = [] \<or> \<not> is_space (hd ?t)"
      by (rule collapseSpace_start) (rule dropWhile_start)
    have "splitRuns P (sep @ ?t) = [] # splitRuns P ?t"
      using ne inP sp t by (rule splitRuns_separator)
    moreover have "splitOn sep (sep @ ?t) = [] # splitOn sep ?t"
      using ne by (rule splitOn_separator)
    moreover have "splitRuns P ?t = splitOn sep ?t"
      using True "2.IH"(1) ne inP sp by blast
    ultimately show ?thesis using True by simp
  next
    case False
    have "P (hd sep)" using ne inP by simp
    then have "c \<noteq> hd sep" "\<not> P c" using False sp by auto
    moreover have "splitRuns P (collapseSpace sep cs) = splitOn sep (collapseSpace sep cs)"
      using False "2.IH"(2) ne inP sp by blast
    ultimately show ?thesis
      using False ne by (simp add: splitOn_other del: splitOn.simps)
  qed
qed

lemma filterMultiline_split:
  "(if getCurrentOs (platform env) = ''win''
    then splitRuns (\<lambda>c. c = creturn \<or> c = newline)
           (normalizeOutput (getCurrentOs (platform env)) raw)
    else splitRuns (\<lambda>c. c = newline) (normalizeOutput (getCurrentOs (platform env)) raw))
   = splitOn (lineSeparator (getCurrentOs (platform env)))
       (normalizeOutput (getCurrentOs (platform env)) raw)"
proof (cases "getCurrentOs (platform env) = ''win''")
  case True
  have "splitRuns (\<lambda>c. c = creturn \<or> c = newline) (collapseSpace [creturn, newline] s)
        = splitOn [creturn, newline] (collapseSpace [creturn, newline] s)" for s
    by (rule split_collapsed) (auto simp: is_space_def)
  then show ?thesis using True by (simp add: normalizeOutput_def lineSeparator_def)
next
  case False
  have "splitRuns (\<lambda>c. c = newline) (collapseSpace [newline] s)
        = splitOn [newline] (collapseSpace [newline] s)" for s
    by (rule split_collapsed) (auto simp: is_space_def)
  then show ?thesis using False by (simp add: normalizeOutput_def lineSeparator_def)
qed

lemma normalizeOutput_five: "normalizeOutput os ''5'' = ''5''"
  by (simp add: normalizeOutput_def stripTrailing_def is_space_def)

text \<open>
  C4. \<open>filterMultiline\<close> normalises its input; when \<open>JSON.parse\<close> decodes the whole
  normalised text, the result is the one-element sequence of the decoded value (so the
  text \<open>5\<close> yields the one value \<open>JSON.parse\<close> gives for \<open>5\<close>); otherwise the
  normalised text is cut at every platform line separator and each piece becomes
  \<open>undefined\<close> when it is \<open>NA\<close>, \<open>NaN\<close> when it is \<open>NaN\<close>, and otherwise the piece
  with every double quote removed.
\<close>

theorem parse_behaviour:
  "(JSON_parse env (normalizeOutput (getCurrentOs (platform env)) raw) = Some v
      \<longrightarrow> filterMultiline env raw = [PJson v])
   \<and> (JSON_parse env (normalizeOutput (getCurrentOs (platform env)) raw) = None
      \<longrightarrow> filterMultiline env raw
          = map (\<lambda>t. if t = ''NA'' then PUndefined
                     else if t = ''NaN'' then PNaN
                     else PString (filter (\<lambda>c. c \<noteq> dquote) t))
              (splitOn (lineSeparator (getCurrentOs (platform env)))
                 (normalizeOutput (getCurrentOs (platform env)) raw)))
   \<and> (JSON_parse env ''5'' = Some n \<longrightarrow> filterMultiline env ''5'' = [PJson n])"
proof (intro conjI impI)
  assume "JSON_parse env (normalizeOutput (getCurrentOs (platform env)) raw) = Some v"
  then show "filterMultiline env raw = [PJson v]"
    by (simp add: filterMultiline_def Let_def)
next
  assume a: "JSON_parse env (normalizeOutput (getCurrentOs (platform env)) raw) = None"
  have "filterMultiline env raw
        = map convertToken
            (if getCurrentOs (platform env) = ''win''
             then splitRuns (\<lambda>c. c = creturn \<or> c = newline)
                    (normalizeOutput (getCurrentOs (platform env)) raw)
             else splitRuns (\<lambda>c. c = newline)
                    (normalizeOutput (getCurrentOs (platform env)) raw))"
    using a by (simp add: filterMultiline_def Let_def)
  also have "\<dots> = map convertToken
      (splitOn (lineSeparator (getCurrentOs (platform env)))
         (normalizeOutput (getCurrentOs (platform env)) raw))"
    by (simp only: filterMultiline_split)
  finally show "filterMultiline env raw
          = map (\<lambda>t. if t = ''NA'' then PUndefined
                     else if t = ''NaN'' then PNaN
                     else PString (filter (\<lambda>c. c \<noteq> dquote) t))
              (splitOn (lineSeparator (getCurrentOs (platform env)))
                 (normalizeOutput (getCurrentOs (platform env)) raw))"
    by (simp add: convertToken_def [abs_def])
next
  assume "JSON_parse env ''5'' = Some n"
  then show "filterMultiline env ''5'' = [PJson n]"
    by (simp add: filterMultiline_def Let_def normalizeOutput_five)
qed

theorem parse_behaviour_witness:
  "filterMultiline (sampleEngine silentOutcome) ''5'' = [PJson 5]
   \<and> filterMultiline (sampleEngine silentOutcome)
        (''[1] '' @ [dquote] @ ''a'' @ [dquote] @ '' NA'' @ [newline] @ ''[3] NaN'' @ [newline])
      = [PString ''a'', PUndefined, PNaN]"
proof -
  let ?env = "sampleEngine silentOutcome"
  let ?raw = "''[1] '' @ [dquote] @ ''a'' @ [dquote] @ '' NA'' @ [newline] @ ''[3] NaN''
                @ [newline]"
  have os: "getCurrentOs (platform ?env) = ''lin''"
    by (simp add: sampleEngine_def sampleHost_def getCurrentOs_def)
  have n: "normalizeOutput ''lin'' ?raw
             = [dquote] @ ''a'' @ [dquote] @ [newline] @ ''NA'' @ [newline] @ ''NaN''"
    by (simp add: normalizeOutput_def stripTrailing_def is_space_def is_digit_def)
  have j: "JSON_parse ?env (normalizeOutput (getCurrentOs (platform ?env)) ?raw) = None"
    unfolding os n by (simp add: sampleEngine_def sampleHost_def decodeNumeral_def is_digit_def)
  have five: "JSON_parse ?env ''5'' = Some 5"
    by (simp add: sampleEngine_def sampleHost_def decodeNumeral_def is_digit_def)
  show ?thesis
    using parse_behaviour [of ?env ?raw _ 5] j five
    unfolding os n by (simp add: lineSeparator_def)
qed

section \<open>Call synthesizer\<close>

lemma concat_separated:
  assumes "xs \<noteq> []" and "\<And>x. x \<in> set xs \<Longrightarrow> f x = g x @ sep"
  shows "concat (map f xs) = joinWith sep (map g xs) @ sep"
  using assms
proof (induction xs rule: list_nonempty_induct)
  case (single x)
  then show ?case by simp
next
  case (cons x xs)
  then obtain y ys where "xs = y # ys" by (cases xs) auto
  with cons show ?case by simp
qed

lemma convert_render:
  "nonemptyLists v \<Longrightarrow> convertParamsArray v = renderValue v @ '',''"
proof (induction v)
  case (JArray xs)
  then have "concat (map convertParamsArray xs)
             = joinWith '','' (map renderValue xs) @ '',''"
    by (intro concat_separated) auto
  then show ?case by (simp add: butlast_append)
qed simp_all

lemma namedEntry_render:
  "nonemptyLists (snd kv) \<Longrightarrow> namedEntry kv = renderEntry kv @ '',''"
proof (cases kv)
  case (Pair k v)
  assume "nonemptyLists (snd kv)"
  then show ?thesis
    using Pair convert_render [of v]
    by (cases v) (simp_all add: renderEntry_def del: convertParamsArray.simps(1))
qed

lemma methodSyntaxOpen_render:
  assumes "nonemptyParams ps"
  shows "methodSyntaxOpen m ps = butlast (callText m ps) @ '',''"
proof (cases ps)
  case (Positional xs)
  then show ?thesis
    using assms convert_render [of "JArray xs"]
    by (simp add: methodSyntaxOpen_def callText_def butlast_append
        del: convertParamsArray.simps(1))
next
  case (Named kvs)
  then have "concat (map namedEntry kvs) = joinWith '','' (map renderEntry kvs) @ '',''"
    using assms by (intro concat_separated) (auto simp: namedEntry_render)
  then show ?thesis
    using Named by (simp add: methodSyntaxOpen_def callText_def butlast_append)
qed

lemma methodSyntax_render:
  assumes "nonemptyParams ps"
  shows "methodSyntax m ps = callText m ps"
proof -
  have "callText m ps = butlast (callText m ps) @ '')''"
    by (simp add: callText_def butlast_append)
  then show ?thesis
    using methodSyntaxOpen_render [OF assms, of m] by (simp add: methodSyntax_def)
qed

text \<open>Scanning parentheses over concatenations and joins.\<close>

lemma parenScan_append:
  "parenScan d (s @ t) = (case parenScan d s of None \<Rightarrow> None | Some d' \<Rightarrow> parenScan d' t)"
  by (induction s arbitrary: d) (auto split: nat.splits)

lemma parenScan_free: "parenFree s \<Longrightarrow> parenScan d s = Some d"
  by (induction s arbitrary: d) (auto simp: parenFree_def)

lemma parenScan_join:
  assumes "\<And>x d. x \<in> set xs \<Longrightarrow> parenScan d (f x) = Some d"
  shows "parenScan d (joinWith '','' (map f xs)) = Some d"
  using assms
proof (induction xs arbitrary: d)
  case Nil
  then show ?case by simp
next
  case (Cons x xs)
  show ?case
  proof (cases xs)
    case Nil
    then show ?thesis using Cons.prems by simp
  next
    case (Cons y ys)
    have "parenScan d (joinWith '','' (map f (y # ys))) = Some d"
      using Cons.IH [of d] Cons.prems Cons by simp
    then show ?thesis
      using Cons Cons.prems [of x d] by (simp add: parenScan_append)
  qed
qed

lemma parenScan_render:
  "nonemptyLists v \<Longrightarrow> parenFreeValue v \<Longrightarrow> parenScan d (renderValue v) = Some d"
proof (induction v arbitrary: d)
  case (JArray xs)
  have "parenScan (Suc d) (joinWith '','' (map renderValue xs)) = Some (Suc d)"
    using JArray by (intro parenScan_join) auto
  then show ?case by (simp add: parenScan_append)
next
  case (JString s)
  then show ?case by (simp add: parenScan_append parenScan_free)
next
  case (JOther t)
  then show ?case by (simp add: parenScan_free)
qed simp_all

lemma balanced_callText:
  assumes "nonemptyParams ps" "parenFree m" "parenFreeParams ps"
  shows "balanced (callText m ps)"
proof (cases ps)
  case (Positional xs)
  then have "parenScan (Suc 0) (renderValue (JArray xs)) = Some (Suc 0)"
    using assms by (intro parenScan_render) auto
  then show ?thesis
    using Positional assms(2)
    by (simp add: balanced_def callText_def parenScan_append parenScan_free
        del: renderValue.simps(1))
next
  case (Named kvs)
  have "parenScan d (renderEntry kv) = Some d" if "kv \<in> set kvs" for kv d
    using that assms Named
    by (simp add: renderEntry_def parenScan_append parenScan_free parenScan_render)
  then have "parenScan (Suc 0) (joinWith '','' (map renderEntry kvs)) = Some (Suc 0)"
    by (intro parenScan_join) auto
  then show ?thesis
    using Named assms(2)
    by (simp add: balanced_def callText_def parenScan_append parenScan_free)
qed

text \<open>
  The depth reached over concatenations and joins: a serialized value, read at any
  depth, climbs by its own nesting depth and comes back.
\<close>

lemma parenDepthFrom_ge: "d \<le> parenDepthFrom d s"
  by (induction s arbitrary: d) (auto simp: max_def le_Suc_eq)

lemma parenDepthFrom_free:
  "parenFree s \<Longrightarrow> parenDepthFrom d (s @ t) = parenDepthFrom d t"
  by (induction s) (auto simp: parenFree_def)

lemma parenDepthFrom_join:
  assumes "\<And>x d t. x \<in> set xs \<Longrightarrow>
             parenDepthFrom d (f x @ t) = max (d + h x) (parenDepthFrom d t)"
  shows "parenDepthFrom d (joinWith '','' (map f xs) @ t)
           = max (d + foldr max (map h xs) 0) (parenDepthFrom d t)"
  using assms
proof (induction xs)
  case Nil
  then show ?case using parenDepthFrom_ge [of d t] by simp
next
  case (Cons x xs)
  show ?case
  proof (cases xs)
    case Nil
    then show ?thesis using Cons.prems [of x d t] by simp
  next
    case (Cons y ys)
    have "parenDepthFrom d (joinWith '','' (map f (y # ys)) @ t)
            = max (d + foldr max (map h (y # ys)) 0) (parenDepthFrom d t)"
      using Cons.IH Cons.prems Cons by simp
    then show ?thesis
      using Cons Cons.prems [of x d "'','' @ joinWith '','' (map f (y # ys)) @ t"]
      by (simp add: nat_add_max_right max.assoc)
  qed
qed

lemma parenDepthFrom_render:
  "nonemptyLists v \<Longrightarrow> parenFreeValue v \<Longrightarrow>
   parenDepthFrom d (renderValue v @ t) = max (d + listDepth v) (parenDepthFrom d t)"
proof (induction v arbitrary: d t)
  case (JArray xs)
  have "parenDepthFrom (Suc d) (joinWith '','' (map renderValue xs) @ '')'' @ t)
          = max (Suc d + foldr max (map listDepth xs) 0) (parenDepthFrom (Suc d) ('')'' @ t))"
    using JArray by (intro parenDepthFrom_join) auto
  then show ?case
    using parenDepthFrom_ge [of d t] by simp
next
  case (JString s)
  then show ?case
    using parenDepthFrom_ge [of d t] parenDepthFrom_free [of s d "squote # t"] by simp
next
  case (JOther x)
  then show ?case
    using parenDepthFrom_ge [of d t] by (simp add: parenDepthFrom_free)
next
  case JUndefined
  then show ?case using parenDepthFrom_ge [of d t] by simp
next
  case JNull
  then show ?case using parenDepthFrom_ge [of d t] by simp
qed

lemma parenDepth_convert:
  assumes "nonemptyLists v" "parenFreeValue v"
  shows "parenDepth (convertParamsArray v) = listDepth v"
  using parenDepthFrom_render [OF assms, of 0 "'',''"] convert_render [OF assms(1)]
  by (simp add: parenDepth_def)

text \<open>
  C1, as amended. For a positional list or a named map with no empty list at any
  depth (and not the empty map), the built call expression is the method name and,
  between one pair of parentheses, every parameter serialized once, in order, with
  commas between (a positional list as the one argument \<open>c(...)\<close>); the character
  dropped before the closing parenthesis is the trailing separator; and the
  parentheses are balanced when the method name, the keys, the strings and the other
  scalars' texts contain no parenthesis.
\<close>

theorem call_expression_invariant:
  assumes "nonemptyParams ps"
  shows "methodSyntax m ps = callText m ps
         \<and> methodSyntaxOpen m ps = butlast (methodSyntax m ps) @ '',''
         \<and> (parenFree m \<and> parenFreeParams ps \<longrightarrow> balanced (methodSyntax m ps))"
  using methodSyntax_render [OF assms, of m] methodSyntaxOpen_render [OF assms, of m]
    balanced_callText [OF assms, of m]
  by simp

theorem call_expression_invariant_witness:
  "methodSyntax ''f''
     (Named [(''x'', JOther ''1''), (''y'', JArray [JString ''a'', JUndefined])])
     = ''f(x=1,y=c('' @ [squote] @ ''a'' @ [squote] @ '',NA))''
   \<and> balanced
       (methodSyntax ''f''
          (Named [(''x'', JOther ''1''), (''y'', JArray [JString ''a'', JUndefined])]))
   \<and> methodSyntax ''f'' (Positional [JOther ''1'', JOther ''2'']) = ''f(c(1,2))''
   \<and> balanced (methodSyntax ''f'' (Positional [JOther ''1'', JOther ''2'']))"
proof -
  have n: "nonemptyParams
             (Named [(''x'', JOther ''1''), (''y'', JArray [JString ''a'', JUndefined])])"
    by simp
  have p: "nonemptyParams (Positional [JOther ''1'', JOther ''2''])"
    by simp
  show ?thesis
    using call_expression_invariant [OF n, of "''f''"]
      call_expression_invariant [OF p, of "''f''"]
    by (simp add: callText_def renderEntry_def parenFree_def balanced_def)
qed

text \<open>
  The claim as stated fails. A string is emitted unescaped, so a string holding a
  quote and an opening parenthesis unbalances the expression; and for the empty list
  and the empty map the character dropped is an opening parenthesis, not a separator.
\<close>

theorem call_expression_invariant_counterexample:
  "methodSyntax ''f'' (Positional [JString [squote, CHR ''('']])
     = ''f(c('' @ [squote, squote] @ ''('' @ [squote] @ ''))''
   \<and> \<not> balanced (methodSyntax ''f'' (Positional [JString [squote, CHR ''('']]))
   \<and> methodSyntax ''f'' (Positional []) = ''f(c))''
   \<and> \<not> balanced (methodSyntax ''f'' (Positional []))
   \<and> methodSyntax ''f'' (Named []) = ''f)''
   \<and> \<not> balanced (methodSyntax ''f'' (Named []))"
  by (simp add: methodSyntax_def methodSyntaxOpen_def balanced_def)

text \<open>
  C6, as amended. For a list with no empty list at any depth, each level is serialized
  as one \<open>c(\<close> ... \<open>)\<close> around the serializations of its elements, in order, joined by
  commas; and when no string or other scalar in it contains a parenthesis, the nesting
  depth of the parentheses of the output is the nesting depth of the list.
\<close>

theorem nested_list_serialization:
  assumes "nonemptyLists (JArray xs)"
  shows "convertParamsArray (JArray xs)
           = ''c('' @ joinWith '','' (map (\<lambda>x. butlast (convertParamsArray x)) xs) @ ''),''
         \<and> convertParamsArray (JArray xs) = renderValue (JArray xs) @ '',''
         \<and> (parenFreeValue (JArray xs)
              \<longrightarrow> parenDepth (convertParamsArray (JArray xs)) = listDepth (JArray xs))"
proof -
  have m: "map (\<lambda>x. butlast (convertParamsArray x)) xs = map renderValue xs"
    using assms by (auto simp: convert_render)
  have r: "convertParamsArray (JArray xs) = renderValue (JArray xs) @ '',''"
    using assms by (rule convert_render)
  have d: "parenFreeValue (JArray xs)
             \<longrightarrow> parenDepth (convertParamsArray (JArray xs)) = listDepth (JArray xs)"
    using parenDepth_convert [OF assms] by blast
  have "convertParamsArray (JArray xs)
           = ''c('' @ joinWith '','' (map (\<lambda>x. butlast (convertParamsArray x)) xs) @ ''),''"
    by (simp add: m r del: convertParamsArray.simps(1))
  then show ?thesis
    using r d by blast
qed

theorem nested_list_serialization_witness:
  "convertParamsArray (JArray [JOther ''1'', JArray [JString ''a'', JArray [JUndefined]]])
     = ''c(1,c('' @ [squote] @ ''a'' @ [squote] @ '',c(NA))),''
   \<and> parenDepth
       (convertParamsArray (JArray [JOther ''1'', JArray [JString ''a'', JArray [JUndefined]]]))
     = 3"
proof -
  have n: "nonemptyLists (JArray [JOther ''1'', JArray [JString ''a'', JArray [JUndefined]]])"
    by simp
  show ?thesis
    using nested_list_serialization [OF n]
    by (simp add: parenFree_def)
qed

text \<open>
  The claim as stated fails. A string is emitted unescaped: a list of depth 1 whose
  string closes its quote and holds a call \<open>c(2)\<close> is serialized with nesting depth 2.
\<close>

theorem nested_list_serialization_counterexample:
  "nonemptyLists (JArray [JString ([squote] @ '',c(2),'' @ [squote])])
   \<and> listDepth (JArray [JString ([squote] @ '',c(2),'' @ [squote])]) = 1
   \<and> convertParamsArray (JArray [JString ([squote] @ '',c(2),'' @ [squote])])
     = ''c('' @ [squote, squote] @ '',c(2),'' @ [squote, squote] @ ''),''
   \<and> parenDepth (convertParamsArray (JArray [JString ([squote] @ '',c(2),'' @ [squote])])) = 2"
  by (simp add: parenDepth_def)

end
